theory Spec2Isabelle
  imports Complex_Main "HOL-Library.Word"
begin

section \<open>Capture service: \<open>POST\<close> of the screenshot route\<close>

subsection \<open>The request payload\<close>

text \<open>
  \<open>req.json()\<close> yields an arbitrary JSON value. An object is the list of its own
  properties, read with \<open>map_of\<close>. A JSON number is a finite JavaScript number; the
  schema only compares it with integer bounds, which is exact, so it is a \<open>real\<close>.
\<close>

datatype json =
    JNull
  | JBool bool
  | JNum real
  | JStr string
  | JArr "json list"
  | JObj "(string \<times> json) list"

datatype format = Png | Jpeg | Pdf

record validated =
  url :: string
  fullSize :: bool
  useProxy :: bool
  noAds :: bool
  width :: real
  height :: real
  zoom :: real
  format :: format
  quality :: real
  delay :: real
  css :: "string option"

text \<open>
  The zod field schemas. The argument is the property as found in the object:
  \<open>None\<close> is \<open>undefined\<close> (the key is missing), and the result \<open>None\<close> is a
  validation issue.
\<close>

fun z_string_url :: "(string \<Rightarrow> bool) \<Rightarrow> json option \<Rightarrow> string option" where
  "z_string_url is_url (Some (JStr s)) = (if is_url s then Some s else None)"
| "z_string_url is_url _ = None"

fun z_boolean_default :: "bool \<Rightarrow> json option \<Rightarrow> bool option" where
  "z_boolean_default d None = Some d"
| "z_boolean_default d (Some (JBool b)) = Some b"
| "z_boolean_default d _ = None"

fun z_number_min_max :: "real \<Rightarrow> real \<Rightarrow> json option \<Rightarrow> real option" where
  "z_number_min_max lo hi (Some (JNum x)) = (if lo \<le> x \<and> x \<le> hi then Some x else None)"
| "z_number_min_max lo hi _ = None"

fun z_number_min_max_default :: "real \<Rightarrow> real \<Rightarrow> real \<Rightarrow> json option \<Rightarrow> real option" where
  "z_number_min_max_default lo hi d None = Some d"
| "z_number_min_max_default lo hi d v = z_number_min_max lo hi v"

fun z_enum_format_default :: "format \<Rightarrow> json option \<Rightarrow> format option" where
  "z_enum_format_default d None = Some d"
| "z_enum_format_default d (Some (JStr s)) =
     (if s = ''png'' then Some Png
      else if s = ''jpeg'' then Some Jpeg
      else if s = ''pdf'' then Some Pdf
      else None)"
| "z_enum_format_default d _ = None"

fun z_string_optional :: "json option \<Rightarrow> string option option" where
  "z_string_optional None = Some None"
| "z_string_optional (Some (JStr s)) = Some (Some s)"
| "z_string_optional _ = None"

text \<open>
  \<open>screenshotSchema.parse\<close>: \<open>None\<close> is the thrown \<open>ZodError\<close>. Unknown keys are
  dropped. \<open>is_url\<close> is the URL parser behind \<open>z.string().url()\<close>.
\<close>

definition screenshotSchema_parse :: "(string \<Rightarrow> bool) \<Rightarrow> json \<Rightarrow> validated option" where
  "screenshotSchema_parse is_url data =
     (case data of
        JObj kvs \<Rightarrow>
          Option.bind (z_string_url is_url (map_of kvs ''url'')) (\<lambda>u.
          Option.bind (z_boolean_default False (map_of kvs ''fullSize'')) (\<lambda>fs.
          Option.bind (z_boolean_default False (map_of kvs ''useProxy'')) (\<lambda>up.
          Option.bind (z_boolean_default False (map_of kvs ''noAds'')) (\<lambda>na.
          Option.bind (z_number_min_max 100 3840 (map_of kvs ''width'')) (\<lambda>w.
          Option.bind (z_number_min_max 100 2160 (map_of kvs ''height'')) (\<lambda>h.
          Option.bind (z_number_min_max 10 200 (map_of kvs ''zoom'')) (\<lambda>z.
          Option.bind (z_enum_format_default Png (map_of kvs ''format'')) (\<lambda>f.
          Option.bind (z_number_min_max_default 0 100 80 (map_of kvs ''quality'')) (\<lambda>q.
          Option.bind (z_number_min_max_default 0 10000 0 (map_of kvs ''delay'')) (\<lambda>d.
          Option.bind (z_string_optional (map_of kvs ''css'')) (\<lambda>c.
            Some \<lparr>url = u, fullSize = fs, useProxy = up, noAds = na, width = w, height = h,
                  zoom = z, format = f, quality = q, delay = d, css = c\<rparr>)))))))))))
      | _ \<Rightarrow> None)"

subsection \<open>The browser automation backend\<close>

datatype js_error = SyntaxError | ZodError | TimeoutError | Error string

datatype request_action = Abort | Continue

text \<open>The puppeteer calls \<open>POST\<close> makes, with the arguments it passes.\<close>

datatype call =
    PuppeteerLaunch bool
  | BrowserNewPage
  | PageSetViewport real real real
  | PageSetRequestInterception bool
  | PageOn string "string \<Rightarrow> request_action"
  | PageGoto string string
  | PageEvaluate string
  | PageWaitForTimeout real
  | PagePdf string bool
  | PageScreenshot bool format "real option"
  | BrowserClose

type_synonym bytes = "8 word list"

text \<open>
  The world outside the handler. Whether a call rejects, and the buffer an artifact call
  resolves to, are functions of all the calls made so far (the last one being the
  current call). \<open>toString_base64\<close> is \<open>Buffer.toString("base64")\<close>.
\<close>

record backend =
  is_url :: "string \<Rightarrow> bool"
  rejects :: "call list \<Rightarrow> js_error option"
  resolves :: "call list \<Rightarrow> bytes"
  toString_base64 :: "bytes \<Rightarrow> string"

type_synonym 'a io = "call list \<Rightarrow> (js_error + 'a) \<times> call list"

definition return_io :: "'a \<Rightarrow> 'a io" where
  "return_io x tr = (Inr x, tr)"

definition throw_io :: "js_error \<Rightarrow> 'a io" where
  "throw_io e tr = (Inl e, tr)"

definition bind_io :: "'a io \<Rightarrow> ('a \<Rightarrow> 'b io) \<Rightarrow> 'b io" where
  "bind_io m f tr = (case m tr of (Inl e, tr') \<Rightarrow> (Inl e, tr') | (Inr x, tr') \<Rightarrow> f x tr')"

text \<open>
  One call into the backend, awaited where the source awaits it: the call is recorded,
  and it either throws or returns.
\<close>

definition invoke :: "backend \<Rightarrow> call \<Rightarrow> bytes io" where
  "invoke env c tr =
     (case rejects env (tr @ [c]) of
        Some e \<Rightarrow> (Inl e, tr @ [c])
      | None \<Rightarrow> (Inr (resolves env (tr @ [c])), tr @ [c]))"

subsection \<open>The handler\<close>

definition request_handler :: "string \<Rightarrow> request_action" where
  "request_handler resourceType =
     (if resourceType = ''advertisement'' \<or> resourceType = ''media'' then Abort else Continue)"

fun format_name :: "format \<Rightarrow> string" where
  "format_name Png = ''png''"
| "format_name Jpeg = ''jpeg''"
| "format_name Pdf = ''pdf''"

datatype response_body = SuccessBody string | FailureBody string

record next_response =
  status :: nat
  body :: response_body

definition req_json :: "json option \<Rightarrow> json io" where
  "req_json payload = (case payload of None \<Rightarrow> throw_io SyntaxError | Some data \<Rightarrow> return_io data)"

definition parse_io :: "backend \<Rightarrow> json \<Rightarrow> validated io" where
  "parse_io env data =
     (case screenshotSchema_parse (is_url env) data of
        None \<Rightarrow> throw_io ZodError
      | Some v \<Rightarrow> return_io v)"

definition data_uri :: "backend \<Rightarrow> validated \<Rightarrow> bytes \<Rightarrow> string" where
  "data_uri env v screenshot =
     ''data:'' @ (if format v = Pdf then ''application/pdf'' else ''image/'' @ format_name (format v))
       @ '';base64,'' @ toString_base64 env screenshot"

text \<open>
  The session part of the \<open>try\<close> block, from \<open>puppeteer.launch\<close> to the returned
  response. \<open>zoom / 100\<close> is the exact quotient here; JavaScript rounds it to a double.
\<close>

definition capture :: "backend \<Rightarrow> validated \<Rightarrow> next_response io" where
  "capture env v =
     bind_io (invoke env (PuppeteerLaunch True)) (\<lambda>_.
     bind_io (invoke env BrowserNewPage) (\<lambda>_.
     bind_io (invoke env (PageSetViewport (width v) (height v) (zoom v / 100))) (\<lambda>_.
     bind_io (if noAds v
              then bind_io (invoke env (PageSetRequestInterception True)) (\<lambda>_.
                   invoke env (PageOn ''request'' request_handler))
              else return_io []) (\<lambda>_.
     bind_io (invoke env (PageGoto (url v) ''networkidle0'')) (\<lambda>_.
     bind_io (case css v of
                Some c \<Rightarrow> if c \<noteq> [] then invoke env (PageEvaluate c) else return_io []
              | None \<Rightarrow> return_io []) (\<lambda>_.
     bind_io (if delay v > 0 then invoke env (PageWaitForTimeout (delay v)) else return_io []) (\<lambda>_.
     bind_io (if format v = Pdf
              then invoke env (PagePdf ''A4'' True)
              else invoke env (PageScreenshot (fullSize v) (format v)
                     (if format v = Jpeg then Some (quality v) else None))) (\<lambda>screenshot.
     bind_io (invoke env BrowserClose) (\<lambda>_.
     return_io \<lparr>status = 200, body = SuccessBody (data_uri env v screenshot)\<rparr>)))))))))"

definition POST_try :: "backend \<Rightarrow> json option \<Rightarrow> next_response io" where
  "POST_try env payload =
     bind_io (req_json payload) (\<lambda>data.
     bind_io (parse_io env data) (\<lambda>v.
     capture env v))"

text \<open>
  What one invocation of \<open>POST\<close> leaves behind: the response, the backend calls in
  order, and what \<open>console.error\<close> printed.
\<close>

record outcome =
  response :: next_response
  calls :: "call list"
  console :: "js_error list"

definition failure_response :: next_response where
  "failure_response = \<lparr>status = 500, body = FailureBody ''Failed to capture screenshot''\<rparr>"

definition POST :: "backend \<Rightarrow> json option \<Rightarrow> outcome" where
  "POST env payload =
     (case POST_try env payload [] of
        (Inr r, tr) \<Rightarrow> \<lparr>response = r, calls = tr, console = []\<rparr>
      | (Inl e, tr) \<Rightarrow> \<lparr>response = failure_response, calls = tr, console = [e]\<rparr>)"

section \<open>Request composer: the page component\<close>

record ScreenshotOptions =
  opt_url :: string
  opt_fullSize :: bool
  opt_useProxy :: bool
  opt_noAds :: bool
  opt_width :: real
  opt_height :: real
  opt_zoom :: real
  opt_format :: format
  opt_quality :: real
  opt_delay :: real
  opt_css :: string

record HistoryItem =
  item_id :: string
  item_url :: string
  timestamp :: nat
  item_screenshot :: string

datatype toast = Toast_error string | Toast_success string

text \<open>
  The component's state (\<open>isLoading\<close>, \<open>screenshot\<close>, \<open>history\<close>, \<open>options\<close>)
  together with what it leaves in the browser: the text stored under the key
  \<open>screenshotHistory\<close>, the notifications shown, the requests sent to the capture
  endpoint and what \<open>console.error\<close> printed.
\<close>

record composer =
  isLoading :: bool
  screenshot :: "string option"
  history :: "HistoryItem list"
  options :: ScreenshotOptions
  localStorage :: "string option"
  toasts :: "toast list"
  fetched :: "ScreenshotOptions list"
  console_log :: "js_error list"

datatype fetch_result =
    FetchRejected js_error
  | JsonRejected
  | Data response_body

text \<open>
  The browser around the component: the answer of the capture endpoint, the clock
  (\<open>Date_now k\<close> is the value of the \<open>k\<close>-th call in one handler run), the JSON
  codec of history lists, and whether \<open>localStorage.setItem\<close> accepts a text.
\<close>

record browser =
  fetch_api :: "ScreenshotOptions \<Rightarrow> fetch_result"
  Date_now :: "nat \<Rightarrow> nat"
  JSON_stringify :: "HistoryItem list \<Rightarrow> string"
  JSON_parse :: "string \<Rightarrow> HistoryItem list option"
  storage_accepts :: "string \<Rightarrow> bool"

fun Number_toString :: "nat \<Rightarrow> string" where
  "Number_toString n =
     (if n < 10 then [''0123456789'' ! n]
      else Number_toString (n div 10) @ [''0123456789'' ! (n mod 10)])"

declare Number_toString.simps [simp del]

definition Page_initial :: "string option \<Rightarrow> composer" where
  "Page_initial stored =
     \<lparr>isLoading = False, screenshot = None, history = [],
      options = \<lparr>opt_url = [], opt_fullSize = False, opt_useProxy = False, opt_noAds = False,
                 opt_width = 1280, opt_height = 720, opt_zoom = 100, opt_format = Png,
                 opt_quality = 80, opt_delay = 0, opt_css = []\<rparr>,
      localStorage = stored, toasts = [], fetched = [], console_log = []\<rparr>"

text \<open>The effect run on mount; \<open>Inl\<close> is the error \<open>JSON.parse\<close> throws.\<close>

definition useEffect_mount :: "browser \<Rightarrow> composer \<Rightarrow> js_error + composer" where
  "useEffect_mount env st =
     (case localStorage st of
        None \<Rightarrow> Inr st
      | Some savedHistory \<Rightarrow>
          if savedHistory = [] then Inr st
          else (case JSON_parse env savedHistory of
                  None \<Rightarrow> Inl SyntaxError
                | Some h \<Rightarrow> Inr (st\<lparr>history := h\<rparr>)))"

definition newHistoryItem :: "browser \<Rightarrow> composer \<Rightarrow> string \<Rightarrow> HistoryItem" where
  "newHistoryItem env st shot =
     \<lparr>item_id = Number_toString (Date_now env 0), item_url = opt_url (options st),
      timestamp = Date_now env 1, item_screenshot = shot\<rparr>"

text \<open>
  The \<open>try\<close> block after the URL check: \<open>Inl\<close> carries the thrown error and the
  state reached when it was thrown.
\<close>

definition send_capture :: "browser \<Rightarrow> composer \<Rightarrow> (js_error \<times> composer) + composer" where
  "send_capture env st =
     (let st1 = st\<lparr>fetched := fetched st @ [options st]\<rparr> in
      case fetch_api env (options st) of
        FetchRejected e \<Rightarrow> Inl (e, st1)
      | JsonRejected \<Rightarrow> Inl (SyntaxError, st1)
      | Data (FailureBody msg) \<Rightarrow> Inl (Error msg, st1)
      | Data (SuccessBody shot) \<Rightarrow>
          (let updatedHistory = newHistoryItem env st shot # take 9 (history st);
               st2 = st1\<lparr>screenshot := Some shot, history := updatedHistory\<rparr>
           in if storage_accepts env (JSON_stringify env updatedHistory)
              then Inr (st2\<lparr>localStorage := Some (JSON_stringify env updatedHistory),
                             toasts := toasts st2 @ [Toast_success ''Screenshot captured successfully!'']\<rparr>)
              else Inl (Error ''QuotaExceededError'', st2)))"

definition handleScreenshot :: "browser \<Rightarrow> composer \<Rightarrow> composer" where
  "handleScreenshot env st0 =
     (let st = st0\<lparr>isLoading := True\<rparr>;
          tried =
            (if opt_url (options st) = []
             then Inr (st\<lparr>toasts := toasts st @ [Toast_error ''Please enter a URL'']\<rparr>)
             else send_capture env st);
          caught =
            (case tried of
               Inr s \<Rightarrow> s
             | Inl (e, s) \<Rightarrow>
                 s\<lparr>toasts := toasts s @ [Toast_error ''Failed to capture screenshot''],
                   console_log := console_log s @ [e]\<rparr>)
      in caught\<lparr>isLoading := False\<rparr>)"

section \<open>Auxiliary notions for the proofs\<close>

text \<open>
  The calls one run of \<open>capture\<close> makes, in order, when none of them throws, and the
  execution of such a list against the backend up to the first call that throws.
\<close>

definition artifact_call :: "validated \<Rightarrow> call" where
  "artifact_call v =
     (if format v = Pdf then PagePdf ''A4'' True
      else PageScreenshot (fullSize v) (format v) (if format v = Jpeg then Some (quality v) else None))"

definition planned :: "validated \<Rightarrow> call list" where
  "planned v =
     [PuppeteerLaunch True, BrowserNewPage, PageSetViewport (width v) (height v) (zoom v / 100)]
     @ (if noAds v then [PageSetRequestInterception True, PageOn ''request'' request_handler] else [])
     @ [PageGoto (url v) ''networkidle0'']
     @ (case css v of Some c \<Rightarrow> if c \<noteq> [] then [PageEvaluate c] else [] | None \<Rightarrow> [])
     @ (if delay v > 0 then [PageWaitForTimeout (delay v)] else [])
     @ [artifact_call v, BrowserClose]"

fun run :: "backend \<Rightarrow> call list \<Rightarrow> call list \<Rightarrow> js_error option \<times> call list" where
  "run env tr [] = (None, tr)"
| "run env tr (c # cs) =
     (case rejects env (tr @ [c]) of
        Some e \<Rightarrow> (Some e, tr @ [c])
      | None \<Rightarrow> run env (tr @ [c]) cs)"

text \<open>
  \<open>completes env m L g\<close>: the computation \<open>m\<close> makes the calls \<open>L\<close> in order,
  stops with the error of the first one that throws, and otherwise returns \<open>g\<close> of the
  calls made.
\<close>

definition completes :: "backend \<Rightarrow> 'a io \<Rightarrow> call list \<Rightarrow> (call list \<Rightarrow> 'a) \<Rightarrow> bool" where
  "completes env m L g \<longleftrightarrow>
     (\<forall>tr. m tr = (case run env tr L of
                     (Some e, tr') \<Rightarrow> (Inl e, tr')
                   | (None, tr') \<Rightarrow> (Inr (g tr'), tr')))"

subsection \<open>Sample inputs\<close>

definition example_payload :: json where
  "example_payload =
     JObj [(''url'', JStr ''https://example.com''), (''width'', JNum 1280),
           (''height'', JNum 720), (''zoom'', JNum 100)]"

definition with_field :: "string \<Rightarrow> json \<Rightarrow> json \<Rightarrow> json" where
  "with_field k x data = (case data of JObj kvs \<Rightarrow> JObj ((k, x) # kvs) | _ \<Rightarrow> data)"

definition backend_ok :: backend where
  "backend_ok =
     \<lparr>is_url = (\<lambda>s. s \<noteq> []), rejects = (\<lambda>tr. None),
      resolves = (\<lambda>tr. [137, 80, 78, 71]), toString_base64 = (\<lambda>bs. ''iVBORw=='')\<rparr>"

definition backend_launch_fails :: backend where
  "backend_launch_fails =
     backend_ok\<lparr>rejects := (\<lambda>tr. case rev tr of
        PuppeteerLaunch h # _ \<Rightarrow> Some (Error ''Failed to launch the browser process'')
      | _ \<Rightarrow> None)\<rparr>"

definition backend_navigation_error :: backend where
  "backend_navigation_error =
     backend_ok\<lparr>rejects := (\<lambda>tr. case rev tr of
        PageGoto u w # _ \<Rightarrow> Some (Error ''net::ERR_NAME_NOT_RESOLVED'')
      | _ \<Rightarrow> None)\<rparr>"

definition backend_navigation_timeout :: backend where
  "backend_navigation_timeout =
     backend_ok\<lparr>rejects := (\<lambda>tr. case rev tr of
        PageGoto u w # _ \<Rightarrow> Some TimeoutError
      | _ \<Rightarrow> None)\<rparr>"



text \<open>The requests C2 is about: one of the four numbers is outside its range.\<close>

definition outside :: "real \<Rightarrow> real \<Rightarrow> json option \<Rightarrow> bool" where
  "outside lo hi x = (case x of Some (JNum n) \<Rightarrow> n < lo \<or> hi < n | _ \<Rightarrow> False)"

definition out_of_range :: "(string \<times> json) list \<Rightarrow> bool" where
  "out_of_range kvs \<longleftrightarrow>
     outside 100 3840 (map_of kvs ''width'') \<or> outside 100 2160 (map_of kvs ''height'')
     \<or> outside 10 200 (map_of kvs ''zoom'') \<or> outside 0 100 (map_of kvs ''quality'')"

definition narrow_payload :: json where
  "narrow_payload = with_field ''width'' (JNum 50) example_payload"

definition example_request :: validated where
  "example_request =
     \<lparr>url = ''https://example.com'', fullSize = False, useProxy = False, noAds = False,
      width = 1280, height = 720, zoom = 100, format = Png, quality = 80, delay = 0,
      css = None\<rparr>"

definition pdf_payload :: json where
  "pdf_payload = with_field ''format'' (JStr ''pdf'') example_payload"

definition base_fields :: "(string \<times> json) list" where
  "base_fields =
     [(''url'', JStr ''https://example.com''), (''width'', JNum 1280),
      (''height'', JNum 720), (''zoom'', JNum 100)]"

definition past_item :: "nat \<Rightarrow> HistoryItem" where
  "past_item k =
     \<lparr>item_id = Number_toString k, item_url = ''https://example.com'', timestamp = k,
      item_screenshot = ''data:image/png;base64,iVBORw==''\<rparr>"

definition ten_items :: "HistoryItem list" where
  "ten_items = map past_item [10, 9, 8, 7, 6, 5, 4, 3, 2, 1]"

definition browser_ok :: browser where
  "browser_ok =
     \<lparr>fetch_api = (\<lambda>opts. Data (SuccessBody ''data:image/png;base64,iVBORw=='')),
      Date_now = (\<lambda>k. 1700000000000 + k),
      JSON_stringify = (\<lambda>h. concat (map (\<lambda>i. item_id i @ '';'') h)),
      JSON_parse = (\<lambda>s. if s = ''eleven'' then Some (past_item 11 # ten_items)
                        else if s = ''ten'' then Some ten_items else None),
      storage_accepts = (\<lambda>s. True)\<rparr>"

definition browser_offline :: browser where
  "browser_offline = browser_ok\<lparr>fetch_api := (\<lambda>opts. FetchRejected (Error ''Failed to fetch''))\<rparr>"

definition browser_garbled :: browser where
  "browser_garbled = browser_ok\<lparr>fetch_api := (\<lambda>opts. JsonRejected)\<rparr>"

definition composing :: "string \<Rightarrow> HistoryItem list \<Rightarrow> string option \<Rightarrow> composer" where
  "composing u h stored =
     (Page_initial stored)\<lparr>history := h, options := (options (Page_initial stored))\<lparr>opt_url := u\<rparr>\<rparr>"

section \<open>The capture service, call by call\<close>

lemma run_append:
  "run env tr (xs @ ys) =
     (case run env tr xs of (Some e, tr') \<Rightarrow> (Some e, tr') | (None, tr') \<Rightarrow> run env tr' ys)"
  by (induction xs arbitrary: tr) (auto split: option.splits)


lemma completes_invoke: "completes env (invoke env c) [c] (resolves env)"
  by (simp add: completes_def invoke_def split: option.splits)

lemma completes_return: "completes env (return_io x) [] (\<lambda>_. x)"
  by (simp add: completes_def return_io_def)

lemma completes_seq:
  assumes "completes env m L1 g1" and "completes env k L2 g2"
  shows "completes env (bind_io m (\<lambda>_. k)) (L1 @ L2) g2"
  using assms
  by (auto simp: completes_def bind_io_def run_append split: option.splits prod.splits)

lemma completes_filter:
  "completes env
     (if noAds v
      then bind_io (invoke env (PageSetRequestInterception True)) (\<lambda>_.
           invoke env (PageOn ''request'' request_handler))
      else return_io [])
     (if noAds v then [PageSetRequestInterception True, PageOn ''request'' request_handler] else [])
     (if noAds v then resolves env else (\<lambda>_. []))"
  using completes_seq [OF completes_invoke completes_invoke] completes_return
  by (cases "noAds v") auto

lemma completes_css:
  "completes env
     (case css v of
        Some c \<Rightarrow> if c \<noteq> [] then invoke env (PageEvaluate c) else return_io []
      | None \<Rightarrow> return_io [])
     (case css v of Some c \<Rightarrow> if c \<noteq> [] then [PageEvaluate c] else [] | None \<Rightarrow> [])
     (case css v of Some c \<Rightarrow> if c \<noteq> [] then resolves env else (\<lambda>_. []) | None \<Rightarrow> (\<lambda>_. []))"
  by (simp add: completes_invoke completes_return split: option.splits)

lemma completes_delay:
  "completes env
     (if delay v > 0 then invoke env (PageWaitForTimeout (delay v)) else return_io [])
     (if delay v > 0 then [PageWaitForTimeout (delay v)] else [])
     (if delay v > 0 then resolves env else (\<lambda>_. []))"
  by (simp add: completes_invoke completes_return)

lemma completes_artifact:
  "completes env
     (bind_io (if format v = Pdf
              then invoke env (PagePdf ''A4'' True)
              else invoke env (PageScreenshot (fullSize v) (format v)
                     (if format v = Jpeg then Some (quality v) else None))) (\<lambda>screenshot.
      bind_io (invoke env BrowserClose) (\<lambda>_.
      return_io \<lparr>status = 200, body = SuccessBody (data_uri env v screenshot)\<rparr>)))
     [artifact_call v, BrowserClose]
     (\<lambda>tr'. \<lparr>status = 200, body = SuccessBody (data_uri env v (resolves env (butlast tr')))\<rparr>)"
  by (simp add: completes_def bind_io_def invoke_def return_io_def artifact_call_def butlast_append
      split: option.splits)

lemma capture_completes:
  "completes env (capture env v) (planned v)
     (\<lambda>tr'. \<lparr>status = 200, body = SuccessBody (data_uri env v (resolves env (butlast tr')))\<rparr>)"
proof -
  note steps = completes_seq [OF completes_invoke [of env "PuppeteerLaunch True"]
      completes_seq [OF completes_invoke [of env BrowserNewPage]
      completes_seq [OF completes_invoke [of env "PageSetViewport (width v) (height v) (zoom v / 100)"]
      completes_seq [OF completes_filter [of env v]
      completes_seq [OF completes_invoke [of env "PageGoto (url v) ''networkidle0''"]
      completes_seq [OF completes_css [of env v]
      completes_seq [OF completes_delay [of env v] completes_artifact [of env v]]]]]]]]
  show ?thesis
    unfolding capture_def planned_def using steps by simp
qed

lemma capture_run:
  "capture env v tr =
     (case run env tr (planned v) of
        (Some e, tr') \<Rightarrow> (Inl e, tr')
      | (None, tr') \<Rightarrow>
          (Inr \<lparr>status = 200, body = SuccessBody (data_uri env v (resolves env (butlast tr')))\<rparr>, tr'))"
  using capture_completes [of env v] by (simp add: completes_def)


lemma run_None: "run env tr L = (None, tr') \<Longrightarrow> tr' = tr @ L"
proof (induction L arbitrary: tr)
  case Nil
  then show ?case by simp
next
  case (Cons c cs)
  from Cons.prems have "run env (tr @ [c]) cs = (None, tr')"
    by (simp split: option.splits)
  from Cons.IH [OF this] show ?case by simp
qed

lemma run_None_last: "run env tr L = (None, tr') \<Longrightarrow> L \<noteq> [] \<Longrightarrow> rejects env tr' = None"
proof (induction L arbitrary: tr)
  case Nil
  then show ?case by simp
next
  case (Cons c cs)
  from Cons.prems(1) have ok: "rejects env (tr @ [c]) = None"
    and rest: "run env (tr @ [c]) cs = (None, tr')"
    by (simp_all split: option.splits)
  show ?case
  proof (cases "cs = []")
    case True
    with rest ok show ?thesis by simp
  next
    case False
    from Cons.IH [OF rest False] show ?thesis .
  qed
qed

lemma run_Some:
  "run env tr L = (Some e, tr') \<Longrightarrow>
     (\<exists>n<length L. tr' = tr @ take (Suc n) L) \<and> rejects env tr' = Some e"
proof (induction L arbitrary: tr)
  case Nil
  then show ?case by simp
next
  case (Cons c cs)
  show ?case
  proof (cases "rejects env (tr @ [c])")
    case None
    with Cons.prems have "run env (tr @ [c]) cs = (Some e, tr')" by simp
    from Cons.IH [OF this] obtain n where "n < length cs" "tr' = (tr @ [c]) @ take (Suc n) cs"
      and "rejects env tr' = Some e" by blast
    then have "Suc n < length (c # cs)" "tr' = tr @ take (Suc (Suc n)) (c # cs)" by simp_all
    with \<open>rejects env tr' = Some e\<close> show ?thesis by blast
  next
    case (Some a)
    with Cons.prems show ?thesis by auto
  qed
qed

lemma io_simps:
  "bind_io (return_io x) f = f x"
  "bind_io (throw_io e) f = throw_io e"
  by (auto simp: bind_io_def return_io_def throw_io_def fun_eq_iff)

lemma POST_no_json:
  "POST env None = \<lparr>response = failure_response, calls = [], console = [SyntaxError]\<rparr>"
  by (simp add: POST_def POST_try_def req_json_def io_simps throw_io_def)

lemma POST_invalid:
  "screenshotSchema_parse (is_url env) data = None \<Longrightarrow>
     POST env (Some data) = \<lparr>response = failure_response, calls = [], console = [ZodError]\<rparr>"
  by (simp add: POST_def POST_try_def req_json_def parse_io_def io_simps throw_io_def)

lemma POST_capture:
  "screenshotSchema_parse (is_url env) data = Some v \<Longrightarrow>
     POST env (Some data) =
       (case capture env v [] of
          (Inr r, tr) \<Rightarrow> \<lparr>response = r, calls = tr, console = []\<rparr>
        | (Inl e, tr) \<Rightarrow> \<lparr>response = failure_response, calls = tr, console = [e]\<rparr>)"
  by (simp add: POST_def POST_try_def req_json_def parse_io_def io_simps)

lemma POST_valid:
  "screenshotSchema_parse (is_url env) data = Some v \<Longrightarrow>
     POST env (Some data) =
       (case run env [] (planned v) of
          (Some e, tr) \<Rightarrow> \<lparr>response = failure_response, calls = tr, console = [e]\<rparr>
        | (None, tr) \<Rightarrow>
            \<lparr>response = \<lparr>status = 200,
                 body = SuccessBody (data_uri env v (resolves env (butlast tr)))\<rparr>,
             calls = tr, console = []\<rparr>)"
  by (simp add: POST_capture capture_run split: option.splits prod.splits)

lemma POST_calls_prefix:
  assumes "screenshotSchema_parse (is_url env) data = Some v"
  shows "\<exists>n. calls (POST env (Some data)) = take (Suc n) (planned v)"
proof (cases "run env [] (planned v)")
  case (Pair r tr)
  show ?thesis
  proof (cases r)
    case None
    with Pair have "tr = planned v" using run_None by fastforce
    then have "tr = take (Suc (length (planned v))) (planned v)" by simp
    moreover from Pair None assms have "calls (POST env (Some data)) = tr"
      by (simp add: POST_valid)
    ultimately show ?thesis by metis
  next
    case (Some e)
    with Pair run_Some [of env "[]" "planned v" e tr] obtain n where "tr = take (Suc n) (planned v)"
      by auto
    moreover from Pair Some assms have "calls (POST env (Some data)) = tr"
      by (simp add: POST_valid)
    ultimately show ?thesis by metis
  qed
qed


lemma outside_min_max: "outside lo hi x \<Longrightarrow> z_number_min_max lo hi x = None"
  by (cases "(lo, hi, x)" rule: z_number_min_max.cases) (auto simp: outside_def)

lemma outside_min_max_default: "outside lo hi x \<Longrightarrow> z_number_min_max_default lo hi d x = None"
  by (cases x) (auto simp: outside_min_max, simp add: outside_def)

lemma out_of_range_invalid:
  assumes "out_of_range kvs"
  shows "screenshotSchema_parse f (JObj kvs) = None"
proof -
  from assms consider
      "z_number_min_max 100 3840 (map_of kvs ''width'') = None"
    | "z_number_min_max 100 2160 (map_of kvs ''height'') = None"
    | "z_number_min_max 10 200 (map_of kvs ''zoom'') = None"
    | "z_number_min_max_default 0 100 80 (map_of kvs ''quality'') = None"
    unfolding out_of_range_def
    by (auto dest: outside_min_max outside_min_max_default [where d = 80])
  then show ?thesis
    by cases (simp_all add: screenshotSchema_parse_def Option.bind_eq_None_conv)
qed

lemma example_valid:
  "screenshotSchema_parse (\<lambda>s. s \<noteq> []) example_payload = Some example_request"
  by (simp add: screenshotSchema_parse_def example_payload_def example_request_def)

lemma example_navigation_error:
  "POST backend_navigation_error (Some example_payload) =
     \<lparr>response = failure_response,
      calls = [PuppeteerLaunch True, BrowserNewPage, PageSetViewport 1280 720 1,
               PageGoto ''https://example.com'' ''networkidle0''],
      console = [Error ''net::ERR_NAME_NOT_RESOLVED'']\<rparr>"
proof -
  have "screenshotSchema_parse (is_url backend_navigation_error) example_payload = Some example_request"
    by (simp add: example_valid backend_navigation_error_def backend_ok_def)
  from POST_valid [OF this] show ?thesis
    by (simp add: planned_def example_request_def backend_navigation_error_def backend_ok_def)
qed

lemma example_navigation_timeout:
  "POST backend_navigation_timeout (Some example_payload) =
     \<lparr>response = failure_response,
      calls = [PuppeteerLaunch True, BrowserNewPage, PageSetViewport 1280 720 1,
               PageGoto ''https://example.com'' ''networkidle0''],
      console = [TimeoutError]\<rparr>"
proof -
  have "screenshotSchema_parse (is_url backend_navigation_timeout) example_payload = Some example_request"
    by (simp add: example_valid backend_navigation_timeout_def backend_ok_def)
  from POST_valid [OF this] show ?thesis
    by (simp add: planned_def example_request_def backend_navigation_timeout_def backend_ok_def)
qed

lemma planned_not_Nil: "planned v \<noteq> []"
  by (simp add: planned_def)

lemma parse_fields:
  assumes "screenshotSchema_parse f (JObj kvs) = Some v"
  shows "z_string_url f (map_of kvs ''url'') = Some (url v)"
    and "z_boolean_default False (map_of kvs ''fullSize'') = Some (fullSize v)"
    and "z_boolean_default False (map_of kvs ''useProxy'') = Some (useProxy v)"
    and "z_boolean_default False (map_of kvs ''noAds'') = Some (noAds v)"
    and "z_number_min_max 100 3840 (map_of kvs ''width'') = Some (width v)"
    and "z_number_min_max 100 2160 (map_of kvs ''height'') = Some (height v)"
    and "z_number_min_max 10 200 (map_of kvs ''zoom'') = Some (zoom v)"
    and "z_enum_format_default Png (map_of kvs ''format'') = Some (format v)"
    and "z_number_min_max_default 0 100 80 (map_of kvs ''quality'') = Some (quality v)"
    and "z_number_min_max_default 0 10000 0 (map_of kvs ''delay'') = Some (delay v)"
    and "z_string_optional (map_of kvs ''css'') = Some (css v)"
  using assms
  by (auto simp: screenshotSchema_parse_def Option.bind_eq_Some_conv)

lemma capture_quality: "format v \<noteq> Jpeg \<Longrightarrow> capture env (v\<lparr>quality := q\<rparr>) = capture env v"
  by (simp add: capture_def data_uri_def)

lemma capture_useProxy: "capture env (v\<lparr>useProxy := p\<rparr>) = capture env v"
  by (simp add: capture_def data_uri_def)

lemma differ_only_in_quality:
  assumes "screenshotSchema_parse f (JObj kvs1) = Some v1"
    and "screenshotSchema_parse f (JObj kvs2) = Some v2"
    and "\<forall>k. k \<noteq> ''quality'' \<longrightarrow> map_of kvs1 k = map_of kvs2 k"
  shows "v2 = v1\<lparr>quality := quality v2\<rparr>"
proof -
  note f1 = parse_fields [OF assms(1)] and f2 = parse_fields [OF assms(2)]
  have "url v1 = url v2" using f1(1) f2(1) assms(3) by simp
  moreover have "fullSize v1 = fullSize v2" using f1(2) f2(2) assms(3) by simp
  moreover have "useProxy v1 = useProxy v2" using f1(3) f2(3) assms(3) by simp
  moreover have "noAds v1 = noAds v2" using f1(4) f2(4) assms(3) by simp
  moreover have "width v1 = width v2" using f1(5) f2(5) assms(3) by simp
  moreover have "height v1 = height v2" using f1(6) f2(6) assms(3) by simp
  moreover have "zoom v1 = zoom v2" using f1(7) f2(7) assms(3) by simp
  moreover have "format v1 = format v2" using f1(8) f2(8) assms(3) by simp
  moreover have "delay v1 = delay v2" using f1(10) f2(10) assms(3) by simp
  moreover have "css v1 = css v2" using f1(11) f2(11) assms(3) by simp
  ultimately show ?thesis by simp
qed

lemma differ_only_in_useProxy:
  assumes "screenshotSchema_parse f (JObj kvs1) = Some v1"
    and "screenshotSchema_parse f (JObj kvs2) = Some v2"
    and "\<forall>k. k \<noteq> ''useProxy'' \<longrightarrow> map_of kvs1 k = map_of kvs2 k"
  shows "v2 = v1\<lparr>useProxy := useProxy v2\<rparr>"
proof -
  note f1 = parse_fields [OF assms(1)] and f2 = parse_fields [OF assms(2)]
  have "url v1 = url v2" using f1(1) f2(1) assms(3) by simp
  moreover have "fullSize v1 = fullSize v2" using f1(2) f2(2) assms(3) by simp
  moreover have "noAds v1 = noAds v2" using f1(4) f2(4) assms(3) by simp
  moreover have "width v1 = width v2" using f1(5) f2(5) assms(3) by simp
  moreover have "height v1 = height v2" using f1(6) f2(6) assms(3) by simp
  moreover have "zoom v1 = zoom v2" using f1(7) f2(7) assms(3) by simp
  moreover have "format v1 = format v2" using f1(8) f2(8) assms(3) by simp
  moreover have "quality v1 = quality v2" using f1(9) f2(9) assms(3) by simp
  moreover have "delay v1 = delay v2" using f1(10) f2(10) assms(3) by simp
  moreover have "css v1 = css v2" using f1(11) f2(11) assms(3) by simp
  ultimately show ?thesis by simp
qed

lemma planned_pdf:
  "format v = Pdf \<Longrightarrow>
     \<exists>pre. planned v = pre @ [PagePdf ''A4'' True, BrowserClose]
        \<and> (\<forall>fs f q. PageScreenshot fs f q \<notin> set pre) \<and> (\<forall>p b. PagePdf p b \<notin> set pre)"
  by (auto simp: planned_def artifact_call_def split: option.splits)

section \<open>Claims about the capture service\<close>



text \<open>
  C1. The browser is closed only at the end of the successful path. When navigation
  fails after a successful launch, the handler answers with the failure response and
  \<open>browser.close\<close> is never called: the session outlives its request.
\<close>

theorem navigation_failure_leaves_browser_open:
  "rejects backend_navigation_error [PuppeteerLaunch True] = None
   \<and> PuppeteerLaunch True \<in> set (calls (POST backend_navigation_error (Some example_payload)))
   \<and> BrowserClose \<notin> set (calls (POST backend_navigation_error (Some example_payload)))
   \<and> response (POST backend_navigation_error (Some example_payload)) = failure_response"
  by (simp add: example_navigation_error) (simp add: backend_navigation_error_def backend_ok_def)

text \<open>
  C2, as stated, fails: the result for an out-of-range width is the fixed failure
  response with status 500, the very response given when the browser cannot be
  launched. It carries no kind that marks it as a validation error.
\<close>

theorem validation_failure_is_generic_failure:
  "response (POST backend_ok (Some narrow_payload)) =
     \<lparr>status = 500, body = FailureBody ''Failed to capture screenshot''\<rparr>
   \<and> response (POST backend_launch_fails (Some example_payload)) =
       response (POST backend_ok (Some narrow_payload))"
proof -
  have "screenshotSchema_parse (is_url backend_ok) narrow_payload = None"
    by (simp add: screenshotSchema_parse_def narrow_payload_def with_field_def
        example_payload_def)
  from POST_invalid [OF this]
  have narrow: "response (POST backend_ok (Some narrow_payload)) = failure_response"
    by simp
  have "screenshotSchema_parse (is_url backend_launch_fails) example_payload = Some example_request"
    by (simp add: example_valid backend_launch_fails_def backend_ok_def)
  from POST_valid [OF this]
  have "response (POST backend_launch_fails (Some example_payload)) = failure_response"
    by (simp add: planned_def backend_launch_fails_def backend_ok_def)
  with narrow show ?thesis by (simp add: failure_response_def)
qed

text \<open>
  C2, amended. When \<open>width\<close>, \<open>height\<close>, \<open>zoom\<close> or \<open>quality\<close> is a number
  outside its range, \<open>POST\<close> answers with the generic failure response, logs the
  validation error, and makes no call to the backend: no browser is launched.
\<close>

theorem out_of_range_rejected_before_launch:
  assumes "out_of_range kvs"
  shows "POST env (Some (JObj kvs)) =
           \<lparr>response = failure_response, calls = [], console = [ZodError]\<rparr>"
  using out_of_range_invalid [OF assms] by (rule POST_invalid)

theorem out_of_range_rejected_before_launch_witness:
  "out_of_range [(''width'', JNum 50), (''url'', JStr ''https://example.com''),
                 (''width'', JNum 1280), (''height'', JNum 720), (''zoom'', JNum 100)]
   \<and> POST backend_ok (Some narrow_payload) =
        \<lparr>response = failure_response, calls = [], console = [ZodError]\<rparr>"
proof -
  have range: "out_of_range [(''width'', JNum 50), (''url'', JStr ''https://example.com''),
                 (''width'', JNum 1280), (''height'', JNum 720), (''zoom'', JNum 100)]"
    by (simp add: out_of_range_def outside_def)
  from out_of_range_rejected_before_launch [OF range, of backend_ok] range show ?thesis
    by (simp add: narrow_payload_def with_field_def example_payload_def)
qed

text \<open>
  C4, as stated, fails: a navigation timeout and a name-resolution error are different
  errors inside the handler (they are logged as such), and the caller receives the same
  response for both.
\<close>

theorem navigation_timeout_not_distinguished:
  "response (POST backend_navigation_timeout (Some example_payload)) =
     response (POST backend_navigation_error (Some example_payload))
   \<and> console (POST backend_navigation_timeout (Some example_payload)) = [TimeoutError]
   \<and> console (POST backend_navigation_error (Some example_payload)) =
       [Error ''net::ERR_NAME_NOT_RESOLVED'']"
  by (simp add: example_navigation_timeout example_navigation_error)

text \<open>
  C4, amended. \<open>POST\<close> always returns a response. It is the one failure response
  exactly when the body is not JSON, or the payload fails validation, or the last
  backend call made threw; otherwise it is a success with status 200. No error leaves
  the handler, and no failure is told apart from another.
\<close>

theorem failures_become_one_response:
  "(response (POST env payload) = failure_response \<longleftrightarrow>
      payload = None
      \<or> (\<exists>data. payload = Some data \<and> screenshotSchema_parse (is_url env) data = None)
      \<or> rejects env (calls (POST env payload)) \<noteq> None)
   \<and> (response (POST env payload) = failure_response
      \<or> (\<exists>uri. response (POST env payload) = \<lparr>status = 200, body = SuccessBody uri\<rparr>))"
proof (cases payload)
  case None
  then show ?thesis by (simp add: POST_no_json)
next
  case (Some data)
  show ?thesis
  proof (cases "screenshotSchema_parse (is_url env) data")
    case None
    with Some show ?thesis by (simp add: POST_invalid)
  next
    case valid: (Some v)
    obtain r tr where run: "run env [] (planned v) = (r, tr)" by (cases "run env [] (planned v)")
    show ?thesis
    proof (cases r)
      case None
      with run have "rejects env tr = None"
        using run_None_last planned_not_Nil by blast
      with None run Some valid show ?thesis
        by (simp add: POST_valid failure_response_def)
    next
      case (Some e)
      with run have "rejects env tr = Some e"
        using run_Some by blast
      with Some run \<open>payload = Some data\<close> valid show ?thesis
        by (simp add: POST_valid)
    qed
  qed
qed

theorem failures_become_one_response_witness:
  "rejects backend_launch_fails (calls (POST backend_launch_fails (Some example_payload))) \<noteq> None
   \<and> response (POST backend_launch_fails (Some example_payload)) = failure_response"
proof -
  have "screenshotSchema_parse (is_url backend_launch_fails) example_payload = Some example_request"
    by (simp add: example_valid backend_launch_fails_def backend_ok_def)
  from POST_valid [OF this]
  have "calls (POST backend_launch_fails (Some example_payload)) = [PuppeteerLaunch True]"
    by (simp add: planned_def backend_launch_fails_def backend_ok_def)
  then have "rejects backend_launch_fails (calls (POST backend_launch_fails (Some example_payload))) \<noteq> None"
    by (simp add: backend_launch_fails_def backend_ok_def)
  with failures_become_one_response [of backend_launch_fails "Some example_payload"]
  show ?thesis by simp
qed

text \<open>
  C5. Two valid payloads that agree on every key but \<open>quality\<close>, with a format other
  than \<open>jpeg\<close>, lead to the same backend calls and the same response.
\<close>

theorem quality_ignored_unless_jpeg:
  assumes "screenshotSchema_parse (is_url env) (JObj kvs1) = Some v1"
    and "screenshotSchema_parse (is_url env) (JObj kvs2) = Some v2"
    and "\<forall>k. k \<noteq> ''quality'' \<longrightarrow> map_of kvs1 k = map_of kvs2 k"
    and "format v1 \<noteq> Jpeg"
  shows "POST env (Some (JObj kvs1)) = POST env (Some (JObj kvs2))"
proof -
  from differ_only_in_quality [OF assms(1-3)] obtain q where "v2 = v1\<lparr>quality := q\<rparr>" ..
  with assms(4) have "capture env v2 = capture env v1" by (simp add: capture_quality)
  then show ?thesis by (simp add: POST_capture [OF assms(1)] POST_capture [OF assms(2)])
qed

theorem quality_ignored_unless_jpeg_witness:
  "screenshotSchema_parse (is_url backend_ok) (JObj ((''quality'', JNum 10) # base_fields)) =
     Some (example_request\<lparr>quality := 10\<rparr>)
   \<and> screenshotSchema_parse (is_url backend_ok) (JObj ((''quality'', JNum 95) # base_fields)) =
     Some (example_request\<lparr>quality := 95\<rparr>)
   \<and> format (example_request\<lparr>quality := 10\<rparr>) \<noteq> Jpeg
   \<and> POST backend_ok (Some (JObj ((''quality'', JNum 10) # base_fields))) =
       POST backend_ok (Some (JObj ((''quality'', JNum 95) # base_fields)))"
proof -
  have low: "screenshotSchema_parse (is_url backend_ok) (JObj ((''quality'', JNum 10) # base_fields)) =
     Some (example_request\<lparr>quality := 10\<rparr>)"
    by (simp add: screenshotSchema_parse_def base_fields_def example_request_def backend_ok_def)
  have high: "screenshotSchema_parse (is_url backend_ok) (JObj ((''quality'', JNum 95) # base_fields)) =
     Some (example_request\<lparr>quality := 95\<rparr>)"
    by (simp add: screenshotSchema_parse_def base_fields_def example_request_def backend_ok_def)
  have same: "\<forall>k. k \<noteq> ''quality'' \<longrightarrow>
         map_of ((''quality'', JNum 10) # base_fields) k =
         map_of ((''quality'', JNum 95) # base_fields) k"
    by simp
  have png: "format (example_request\<lparr>quality := 10\<rparr>) \<noteq> Jpeg"
    by (simp add: example_request_def)
  from quality_ignored_unless_jpeg [OF low high same png] low high same png
  show ?thesis by blast
qed

text \<open>
  C6. For a valid request with format \<open>pdf\<close>, no screenshot call is made, every PDF
  call asks for page format \<open>A4\<close> with backgrounds printed, whatever \<open>width\<close> and
  \<open>height\<close> are, and a successful response carries the bytes of that call in a data
  URI of type \<open>application/pdf\<close>.
\<close>

theorem pdf_artifact:
  assumes "screenshotSchema_parse (is_url env) data = Some v" and "format v = Pdf"
  shows "(\<forall>fs f q. PageScreenshot fs f q \<notin> set (calls (POST env (Some data))))
       \<and> (\<forall>p b. PagePdf p b \<in> set (calls (POST env (Some data))) \<longrightarrow> p = ''A4'' \<and> b)
       \<and> (\<forall>uri. body (response (POST env (Some data))) = SuccessBody uri \<longrightarrow>
             (\<exists>pre. calls (POST env (Some data)) = pre @ [PagePdf ''A4'' True, BrowserClose]
                \<and> uri = ''data:application/pdf;base64,''
                         @ toString_base64 env (resolves env (pre @ [PagePdf ''A4'' True]))))"
proof -
  from planned_pdf [OF assms(2)] obtain pre
    where plan: "planned v = pre @ [PagePdf ''A4'' True, BrowserClose]"
      and no_shot: "\<forall>fs f q. PageScreenshot fs f q \<notin> set pre"
      and no_pdf: "\<forall>p b. PagePdf p b \<notin> set pre"
    by blast
  from POST_calls_prefix [OF assms(1)] obtain n
    where "calls (POST env (Some data)) = take (Suc n) (planned v)" by blast
  then have sub: "set (calls (POST env (Some data))) \<subseteq> set (planned v)"
    by (simp add: set_take_subset)
  have shots: "\<forall>fs f q. PageScreenshot fs f q \<notin> set (calls (POST env (Some data)))"
    using sub plan no_shot by auto
  have pdfs: "\<forall>p b. PagePdf p b \<in> set (calls (POST env (Some data))) \<longrightarrow> p = ''A4'' \<and> b"
    using sub plan no_pdf by auto
  have "\<exists>pre. calls (POST env (Some data)) = pre @ [PagePdf ''A4'' True, BrowserClose]
                \<and> uri = ''data:application/pdf;base64,''
                         @ toString_base64 env (resolves env (pre @ [PagePdf ''A4'' True]))"
    if ok: "body (response (POST env (Some data))) = SuccessBody uri" for uri
  proof -
    obtain r tr where run: "run env [] (planned v) = (r, tr)"
      by (cases "run env [] (planned v)")
    show ?thesis
    proof (cases r)
      case None
      with run have tr: "tr = pre @ [PagePdf ''A4'' True, BrowserClose]"
        using run_None plan by fastforce
      then have "butlast tr = pre @ [PagePdf ''A4'' True]"
        by (simp add: butlast_append)
      with None run tr ok assms show ?thesis
        by (simp add: POST_valid data_uri_def)
    next
      case (Some e)
      with run ok assms(1) show ?thesis
        by (simp add: POST_valid failure_response_def)
    qed
  qed
  with shots pdfs show ?thesis by blast
qed

theorem pdf_artifact_witness:
  "screenshotSchema_parse (is_url backend_ok) pdf_payload = Some (example_request\<lparr>format := Pdf\<rparr>)
   \<and> format (example_request\<lparr>format := Pdf\<rparr>) = Pdf
   \<and> body (response (POST backend_ok (Some pdf_payload))) =
        SuccessBody ''data:application/pdf;base64,iVBORw==''
   \<and> (\<exists>pre. calls (POST backend_ok (Some pdf_payload)) = pre @ [PagePdf ''A4'' True, BrowserClose])
   \<and> PageScreenshot False Pdf None \<notin> set (calls (POST backend_ok (Some pdf_payload)))"
proof -
  have valid: "screenshotSchema_parse (is_url backend_ok) pdf_payload =
      Some (example_request\<lparr>format := Pdf\<rparr>)"
    by (simp add: screenshotSchema_parse_def pdf_payload_def with_field_def example_payload_def
        example_request_def backend_ok_def)
  have pdf: "format (example_request\<lparr>format := Pdf\<rparr>) = Pdf"
    by simp
  have ok: "body (response (POST backend_ok (Some pdf_payload))) =
        SuccessBody ''data:application/pdf;base64,iVBORw==''"
    unfolding POST_valid [OF valid]
    by (simp add: planned_def artifact_call_def example_request_def backend_ok_def data_uri_def)
  from pdf_artifact [OF valid pdf] ok valid pdf show ?thesis
    by blast
qed

text \<open>
  C8. Two valid payloads that agree on every key but \<open>useProxy\<close> lead to the same
  backend calls, hence the same session configuration, and to the same response.
\<close>

theorem useProxy_never_read:
  assumes "screenshotSchema_parse (is_url env) (JObj kvs1) = Some v1"
    and "screenshotSchema_parse (is_url env) (JObj kvs2) = Some v2"
    and "\<forall>k. k \<noteq> ''useProxy'' \<longrightarrow> map_of kvs1 k = map_of kvs2 k"
  shows "POST env (Some (JObj kvs1)) = POST env (Some (JObj kvs2))"
proof -
  from differ_only_in_useProxy [OF assms] obtain p where "v2 = v1\<lparr>useProxy := p\<rparr>" ..
  then have "capture env v2 = capture env v1" by (simp add: capture_useProxy)
  then show ?thesis by (simp add: POST_capture [OF assms(1)] POST_capture [OF assms(2)])
qed

theorem useProxy_never_read_witness:
  "screenshotSchema_parse (is_url backend_ok) (JObj ((''useProxy'', JBool True) # base_fields)) =
     Some (example_request\<lparr>useProxy := True\<rparr>)
   \<and> screenshotSchema_parse (is_url backend_ok) (JObj base_fields) = Some example_request
   \<and> POST backend_ok (Some (JObj ((''useProxy'', JBool True) # base_fields))) =
       POST backend_ok (Some (JObj base_fields))"
proof -
  have proxied: "screenshotSchema_parse (is_url backend_ok)
       (JObj ((''useProxy'', JBool True) # base_fields)) =
     Some (example_request\<lparr>useProxy := True\<rparr>)"
    by (simp add: screenshotSchema_parse_def base_fields_def example_request_def backend_ok_def)
  have direct: "screenshotSchema_parse (is_url backend_ok) (JObj base_fields) = Some example_request"
    by (simp add: screenshotSchema_parse_def base_fields_def example_request_def backend_ok_def)
  have same: "\<forall>k. k \<noteq> ''useProxy'' \<longrightarrow>
         map_of ((''useProxy'', JBool True) # base_fields) k = map_of base_fields k"
    by simp
  from useProxy_never_read [OF proxied direct same] proxied direct same
  show ?thesis by blast
qed

section \<open>Claims about the request composer\<close>

lemma newHistoryItem_isLoading [simp]:
  "newHistoryItem env (st\<lparr>isLoading := b\<rparr>) shot = newHistoryItem env st shot"
  by (simp add: newHistoryItem_def)

lemma newHistoryItem_history [simp]:
  "newHistoryItem env (st\<lparr>history := h\<rparr>) shot = newHistoryItem env st shot"
  by (simp add: newHistoryItem_def)

lemma handleScreenshot_success:
  assumes "opt_url (options st) \<noteq> []" and "fetch_api env (options st) = Data (SuccessBody shot)"
  shows "history (handleScreenshot env st) = newHistoryItem env st shot # take 9 (history st)"
    and "screenshot (handleScreenshot env st) = Some shot"
    and "storage_accepts env (JSON_stringify env (newHistoryItem env st shot # take 9 (history st)))
         \<Longrightarrow> localStorage (handleScreenshot env st) =
             Some (JSON_stringify env (newHistoryItem env st shot # take 9 (history st)))"
  using assms by (simp_all add: handleScreenshot_def send_capture_def Let_def)

lemma handleScreenshot_length:
  "length (history st) \<le> 10 \<Longrightarrow> length (history (handleScreenshot env st)) \<le> 10"
  by (auto simp: handleScreenshot_def send_capture_def Let_def
      split: fetch_result.splits response_body.splits)

lemma take_9_of_10: "length xs = 10 \<Longrightarrow> take 9 xs = butlast xs"
  by (simp add: butlast_conv_take)

lemma useEffect_mount_history:
  assumes "useEffect_mount env st = Inr st'"
  shows "history st' = history st
       \<or> (\<exists>saved. localStorage st = Some saved \<and> JSON_parse env saved = Some (history st'))"
  using assms
  by (auto simp: useEffect_mount_def split: option.splits if_splits)

text \<open>
  C7, as stated, fails: the effect run on mount adopts the list found in local storage
  without cutting it. A stored list of 11 entries becomes a history of 11 entries, and it
  still has 11 entries after a click that sends nothing.
\<close>

theorem mounted_history_exceeds_ten:
  "useEffect_mount browser_ok (Page_initial (Some ''eleven'')) =
     Inr ((Page_initial (Some ''eleven''))\<lparr>history := past_item 11 # ten_items\<rparr>)
   \<and> length (history ((Page_initial (Some ''eleven''))\<lparr>history := past_item 11 # ten_items\<rparr>)) = 11
   \<and> length (history (handleScreenshot browser_ok
        ((Page_initial (Some ''eleven''))\<lparr>history := past_item 11 # ten_items\<rparr>))) = 11"
proof -
  have "useEffect_mount browser_ok (Page_initial (Some ''eleven'')) =
     Inr ((Page_initial (Some ''eleven''))\<lparr>history := past_item 11 # ten_items\<rparr>)"
    by (simp add: useEffect_mount_def Page_initial_def browser_ok_def)
  moreover have "length (past_item 11 # ten_items) = 11"
    by (simp add: ten_items_def)
  moreover have "history (handleScreenshot browser_ok
        ((Page_initial (Some ''eleven''))\<lparr>history := past_item 11 # ten_items\<rparr>)) =
      past_item 11 # ten_items"
    by (simp add: handleScreenshot_def Let_def Page_initial_def)
  ultimately show ?thesis by simp
qed

text \<open>
  C7, amended. The history stays within 10 entries as long as the list held in local
  storage does: \<open>handleScreenshot\<close> never takes a history of at most 10 entries beyond
  10, and the effect run on mount keeps it within 10 when every list the stored text
  parses to has at most 10 entries. After a successful capture the history is the new
  entry followed by the first 9 of the old ones, so it has at most 10 entries with the
  new one at the front; when the old history had 10 entries, its last, the oldest, is the
  one dropped. The same list is what is written to local storage.
\<close>

theorem history_capped_most_recent_first:
  "(length (history st) \<le> 10 \<longrightarrow> length (history (handleScreenshot env st)) \<le> 10)
   \<and> (opt_url (options st) \<noteq> [] \<and> fetch_api env (options st) = Data (SuccessBody shot) \<longrightarrow>
        history (handleScreenshot env st) = newHistoryItem env st shot # take 9 (history st)
        \<and> length (history (handleScreenshot env st)) \<le> 10
        \<and> (length (history st) = 10 \<longrightarrow>
             history (handleScreenshot env st) = newHistoryItem env st shot # butlast (history st))
        \<and> (storage_accepts env (JSON_stringify env (history (handleScreenshot env st))) \<longrightarrow>
             localStorage (handleScreenshot env st) =
               Some (JSON_stringify env (history (handleScreenshot env st)))))
   \<and> (useEffect_mount env st = Inr st' \<and> length (history st) \<le> 10
        \<and> (\<forall>saved h. localStorage st = Some saved \<and> JSON_parse env saved = Some h \<longrightarrow>
               length h \<le> 10) \<longrightarrow>
        length (history st') \<le> 10)"
proof -
  have mounted: "length (history st') \<le> 10"
    if "useEffect_mount env st = Inr st'" and "length (history st) \<le> 10"
      and "\<forall>saved h. localStorage st = Some saved \<and> JSON_parse env saved = Some h \<longrightarrow>
               length h \<le> 10"
    using useEffect_mount_history [OF that(1)] that(2,3) by auto
  have handled: "(length (history st) \<le> 10 \<longrightarrow> length (history (handleScreenshot env st)) \<le> 10)
   \<and> (opt_url (options st) \<noteq> [] \<and> fetch_api env (options st) = Data (SuccessBody shot) \<longrightarrow>
        history (handleScreenshot env st) = newHistoryItem env st shot # take 9 (history st)
        \<and> length (history (handleScreenshot env st)) \<le> 10
        \<and> (length (history st) = 10 \<longrightarrow>
             history (handleScreenshot env st) = newHistoryItem env st shot # butlast (history st))
        \<and> (storage_accepts env (JSON_stringify env (history (handleScreenshot env st))) \<longrightarrow>
             localStorage (handleScreenshot env st) =
               Some (JSON_stringify env (history (handleScreenshot env st)))))"
    by (auto simp: handleScreenshot_length handleScreenshot_success take_9_of_10)
  from handled mounted show ?thesis by blast
qed

theorem history_capped_most_recent_first_witness:
  "length (history (composing ''https://example.com'' ten_items (Some ''ten''))) = 10
   \<and> opt_url (options (composing ''https://example.com'' ten_items (Some ''ten''))) \<noteq> []
   \<and> fetch_api browser_ok (options (composing ''https://example.com'' ten_items (Some ''ten''))) =
       Data (SuccessBody ''data:image/png;base64,iVBORw=='')
   \<and> map timestamp (history (handleScreenshot browser_ok
         (composing ''https://example.com'' ten_items (Some ''ten'')))) =
       [1700000000001, 10, 9, 8, 7, 6, 5, 4, 3, 2]
   \<and> length (history (handleScreenshot browser_ok
         (composing ''https://example.com'' ten_items (Some ''ten'')))) = 10
   \<and> useEffect_mount browser_ok (composing ''https://example.com'' [] (Some ''ten'')) =
       Inr (composing ''https://example.com'' ten_items (Some ''ten''))
   \<and> JSON_parse browser_ok ''ten'' = Some ten_items"
proof -
  let ?fresh = "composing ''https://example.com'' [] (Some ''ten'')"
  let ?st = "composing ''https://example.com'' ten_items (Some ''ten'')"
  let ?shot = "''data:image/png;base64,iVBORw==''"
  have parsed: "JSON_parse browser_ok ''ten'' = Some ten_items"
    by (simp add: browser_ok_def)
  have mount: "useEffect_mount browser_ok ?fresh = Inr ?st"
    by (simp add: useEffect_mount_def composing_def Page_initial_def browser_ok_def)
  have blank: "length (history ?fresh) \<le> 10"
    by (simp add: composing_def)
  have stored: "\<forall>saved h. localStorage ?fresh = Some saved \<and> JSON_parse browser_ok saved = Some h \<longrightarrow>
      length h \<le> 10"
  proof -
    have "length ten_items = 10"
      by (simp add: ten_items_def)
    then have "length ten_items \<le> 10"
      by simp
    then show ?thesis
      by (auto simp: composing_def Page_initial_def browser_ok_def split: if_splits)
  qed
  from history_capped_most_recent_first
    [where st = ?fresh and env = browser_ok and shot = ?shot and st' = ?st] mount blank stored
  have within: "length (history ?st) \<le> 10"
    by blast
  have full: "length (history ?st) = 10"
    by (simp add: composing_def ten_items_def)
  have typed: "opt_url (options ?st) \<noteq> []"
    by (simp add: composing_def Page_initial_def)
  have ok: "fetch_api browser_ok (options ?st) = Data (SuccessBody ?shot)"
    by (simp add: browser_ok_def)
  from history_capped_most_recent_first
    [where st = ?st and env = browser_ok and shot = ?shot and st' = ?st] full typed ok
  have evicted: "history (handleScreenshot browser_ok ?st) =
      newHistoryItem browser_ok ?st ?shot # butlast (history ?st)"
    by blast
  then have "map timestamp (history (handleScreenshot browser_ok ?st)) =
       [1700000000001, 10, 9, 8, 7, 6, 5, 4, 3, 2]"
    by (simp add: newHistoryItem_def composing_def ten_items_def past_item_def browser_ok_def)
  moreover from evicted have "length (history (handleScreenshot browser_ok ?st)) = 10"
    by (simp add: composing_def ten_items_def)
  ultimately show ?thesis using full typed ok mount parsed by blast
qed

text \<open>
  C9. With an empty URL, \<open>handleScreenshot\<close> shows the error notification and
  returns: no request is sent, and the preview, the history and local storage are as
  before. Only the notification is added, and \<open>isLoading\<close> ends up false.
\<close>

theorem empty_url_sends_nothing:
  assumes "opt_url (options st) = []"
  shows "toasts (handleScreenshot env st) = toasts st @ [Toast_error ''Please enter a URL'']
       \<and> fetched (handleScreenshot env st) = fetched st
       \<and> screenshot (handleScreenshot env st) = screenshot st
       \<and> history (handleScreenshot env st) = history st
       \<and> localStorage (handleScreenshot env st) = localStorage st
       \<and> handleScreenshot env st =
           st\<lparr>isLoading := False, toasts := toasts st @ [Toast_error ''Please enter a URL'']\<rparr>"
  using assms by (simp add: handleScreenshot_def Let_def)

theorem empty_url_sends_nothing_witness:
  "opt_url (options (Page_initial None)) = []
   \<and> toasts (handleScreenshot browser_ok (Page_initial None)) =
       [Toast_error ''Please enter a URL'']
   \<and> fetched (handleScreenshot browser_ok (Page_initial None)) = []
   \<and> screenshot (handleScreenshot browser_ok (Page_initial None)) = None
   \<and> history (handleScreenshot browser_ok (Page_initial None)) = []
   \<and> localStorage (handleScreenshot browser_ok (Page_initial None)) = None"
proof -
  have blank: "opt_url (options (Page_initial None)) = []"
    by (simp add: Page_initial_def)
  from empty_url_sends_nothing [OF blank, of browser_ok] blank show ?thesis
    by (simp add: Page_initial_def)
qed

lemma handleScreenshot_no_success:
  assumes "opt_url (options st) = [] \<or> (\<forall>shot. fetch_api env (options st) \<noteq> Data (SuccessBody shot))"
  shows "history (handleScreenshot env st) = history st"
proof (cases "opt_url (options st) = []")
  case True
  then show ?thesis by (simp add: handleScreenshot_def Let_def)
next
  case False
  with assms have none: "\<forall>shot. fetch_api env (options st) \<noteq> Data (SuccessBody shot)"
    by blast
  show ?thesis
  proof (cases "fetch_api env (options st)")
    case (FetchRejected e)
    with False show ?thesis by (simp add: handleScreenshot_def send_capture_def Let_def)
  next
    case JsonRejected
    with False show ?thesis by (simp add: handleScreenshot_def send_capture_def Let_def)
  next
    case (Data b)
    with none obtain msg where "b = FailureBody msg" by (cases b) auto
    with Data False show ?thesis by (simp add: handleScreenshot_def send_capture_def Let_def)
  qed
qed

text \<open>
  C10. On mount the list parsed from local storage becomes the history as it is,
  whatever its length. It stays so through every run of \<open>handleScreenshot\<close> that is not
  a successful capture: the URL is empty, the request is rejected, the answer is not
  JSON, or the answer reports a failure. The next successful capture cuts it to the new
  entry and the first 9 stored ones.
\<close>

theorem stored_history_adopted_uncapped:
  assumes "localStorage st = Some saved" and "saved \<noteq> []" and "JSON_parse env saved = Some h"
  shows "useEffect_mount env st = Inr (st\<lparr>history := h\<rparr>)
       \<and> (opt_url (options st) = []
            \<or> (\<forall>shot. fetch_api env' (options st) \<noteq> Data (SuccessBody shot)) \<longrightarrow>
            history (handleScreenshot env' (st\<lparr>history := h\<rparr>)) = h)
       \<and> (opt_url (options st) \<noteq> [] \<and> fetch_api env' (options st) = Data (SuccessBody shot) \<longrightarrow>
            history (handleScreenshot env' (st\<lparr>history := h\<rparr>)) =
              newHistoryItem env' st shot # take 9 h
            \<and> length (history (handleScreenshot env' (st\<lparr>history := h\<rparr>))) \<le> 10)"
proof -
  have mount: "useEffect_mount env st = Inr (st\<lparr>history := h\<rparr>)"
    using assms by (simp add: useEffect_mount_def)
  have kept: "history (handleScreenshot env' (st\<lparr>history := h\<rparr>)) = h"
    if "opt_url (options st) = []
        \<or> (\<forall>shot. fetch_api env' (options st) \<noteq> Data (SuccessBody shot))"
    using that handleScreenshot_no_success [of "st\<lparr>history := h\<rparr>" env'] by simp
  have recapped: "history (handleScreenshot env' (st\<lparr>history := h\<rparr>)) =
              newHistoryItem env' st shot # take 9 h"
    if "opt_url (options st) \<noteq> []" "fetch_api env' (options st) = Data (SuccessBody shot)"
    using that handleScreenshot_success(1) [of "st\<lparr>history := h\<rparr>" env' shot] by simp
  from mount kept recapped show ?thesis by simp
qed

theorem stored_history_adopted_uncapped_witness:
  "localStorage (composing ''https://example.com'' [] (Some ''eleven'')) = Some ''eleven''
   \<and> JSON_parse browser_ok ''eleven'' = Some (past_item 11 # ten_items)
   \<and> useEffect_mount browser_ok (composing ''https://example.com'' [] (Some ''eleven'')) =
       Inr ((composing ''https://example.com'' [] (Some ''eleven''))
              \<lparr>history := past_item 11 # ten_items\<rparr>)
   \<and> length (past_item 11 # ten_items) = 11
   \<and> length (history (handleScreenshot browser_offline
        ((composing ''https://example.com'' [] (Some ''eleven''))
           \<lparr>history := past_item 11 # ten_items\<rparr>))) = 11
   \<and> length (history (handleScreenshot browser_garbled
        ((composing ''https://example.com'' [] (Some ''eleven''))
           \<lparr>history := past_item 11 # ten_items\<rparr>))) = 11
   \<and> length (history (handleScreenshot browser_ok
        ((composing ''https://example.com'' [] (Some ''eleven''))
           \<lparr>history := past_item 11 # ten_items\<rparr>))) = 10"
proof -
  let ?st = "composing ''https://example.com'' [] (Some ''eleven'')"
  let ?shot = "''data:image/png;base64,iVBORw==''"
  have stored: "localStorage ?st = Some ''eleven''"
    by (simp add: composing_def Page_initial_def)
  have nonempty: "''eleven'' \<noteq> []"
    by simp
  have parsed: "JSON_parse browser_ok ''eleven'' = Some (past_item 11 # ten_items)"
    by (simp add: browser_ok_def)
  have typed: "opt_url (options ?st) \<noteq> []"
    by (simp add: composing_def Page_initial_def)
  have ok: "fetch_api browser_ok (options ?st) = Data (SuccessBody ?shot)"
    by (simp add: browser_ok_def)
  have offline: "\<forall>shot. fetch_api browser_offline (options ?st) \<noteq> Data (SuccessBody shot)"
    by (simp add: browser_offline_def)
  have garbled: "\<forall>shot. fetch_api browser_garbled (options ?st) \<noteq> Data (SuccessBody shot)"
    by (simp add: browser_garbled_def)
  have eleven: "length (past_item 11 # ten_items) = 11"
    by (simp add: ten_items_def)
  note adopted = stored_history_adopted_uncapped [OF stored nonempty parsed]
  from adopted [of browser_ok ?shot] typed ok
  have "history (handleScreenshot browser_ok (?st\<lparr>history := past_item 11 # ten_items\<rparr>)) =
      newHistoryItem browser_ok ?st ?shot # take 9 (past_item 11 # ten_items)"
    by blast
  then have recapped: "length (history (handleScreenshot browser_ok
      (?st\<lparr>history := past_item 11 # ten_items\<rparr>))) = 10"
    by (simp add: ten_items_def)
  from adopted [of browser_offline ?shot] offline
  have "history (handleScreenshot browser_offline (?st\<lparr>history := past_item 11 # ten_items\<rparr>)) =
      past_item 11 # ten_items"
    by blast
  with eleven have kept_offline: "length (history (handleScreenshot browser_offline
      (?st\<lparr>history := past_item 11 # ten_items\<rparr>))) = 11"
    by simp
  from adopted [of browser_garbled ?shot] garbled
  have "history (handleScreenshot browser_garbled (?st\<lparr>history := past_item 11 # ten_items\<rparr>)) =
      past_item 11 # ten_items"
    by blast
  with eleven have kept_garbled: "length (history (handleScreenshot browser_garbled
      (?st\<lparr>history := past_item 11 # ten_items\<rparr>))) = 11"
    by simp
  from adopted [of browser_ok ?shot]
  have "useEffect_mount browser_ok ?st = Inr (?st\<lparr>history := past_item 11 # ten_items\<rparr>)"
    by blast
  with stored parsed eleven kept_offline kept_garbled recapped show ?thesis by blast
qed

end
